theory Spec2Isabelle
  imports Complex_Main
begin

section \<open>JavaScript values\<close>

text \<open>
  The widget script is untyped: configuration values come from the host page and the
  reply comes from \<^verbatim>\<open>response.json()\<close>. The values are the JSON values and \<^verbatim>\<open>undefined\<close>. A
  number is given by the text that \<^verbatim>\<open>ToString\<close> has for it (\<^verbatim>\<open>5\<close>, \<^verbatim>\<open>0.5\<close>, \<^verbatim>\<open>1e+21\<close>, \<^verbatim>\<open>NaN\<close>); an
  object by its own properties, its prototype being \<^verbatim>\<open>Object.prototype\<close>; a character is one
  code unit below 256.
\<close>

datatype jsval =
    JUndefined
  | JNull
  | JBool bool
  | JNum string
  | JStr string
  | JArr "jsval list"
  | JObj "(string \<times> jsval) list"

text \<open>Truthiness, as \<^verbatim>\<open>!x\<close>, \<^verbatim>\<open>x || y\<close> and \<^verbatim>\<open>x ? a : b\<close> read it.\<close>

fun truthy :: "jsval \<Rightarrow> bool" where
  "truthy JUndefined = False"
| "truthy JNull = False"
| "truthy (JBool b) = b"
| "truthy (JNum t) = (t \<noteq> ''0'' \<and> t \<noteq> ''NaN'')"
| "truthy (JStr s) = (s \<noteq> [])"
| "truthy (JArr xs) = True"
| "truthy (JObj kvs) = True"

text \<open>\<^verbatim>\<open>a || b\<close>\<close>

definition js_or :: "jsval \<Rightarrow> jsval \<Rightarrow> jsval" where
  "js_or a b = (if truthy a then a else b)"

text \<open>
  Decimal rendering of an integer below \<open>10\<^sup>2\<^sup>1\<close>, as string concatenation and template
  literals do it for a clock reading and for a status.
\<close>

fun digits :: "nat \<Rightarrow> string" where
  "digits n = (if n < 10 then [''0123456789'' ! n]
               else digits (n div 10) @ [''0123456789'' ! (n mod 10)])"

declare digits.simps [simp del]

definition show_int :: "int \<Rightarrow> string" where
  "show_int i = (if i < 0 then CHR ''-'' # digits (nat (- i)) else digits (nat i))"

fun intercalate :: "string \<Rightarrow> string list \<Rightarrow> string" where
  "intercalate sep [] = []"
| "intercalate sep [x] = x"
| "intercalate sep (x # y # ys) = x @ sep @ intercalate sep (y # ys)"

text \<open>An exception, by the text of its \<^verbatim>\<open>message\<close>.\<close>

datatype js_error = Error string

fun message_of :: "js_error \<Rightarrow> string" where
  "message_of (Error m) = m"

text \<open>The results of a list of conversions, or the first exception among them.\<close>

fun all_results :: "(js_error + string) list \<Rightarrow> js_error + string list" where
  "all_results [] = Inr []"
| "all_results (Inl e # rs) = Inl e"
| "all_results (Inr t # rs) = (case all_results rs of Inl e \<Rightarrow> Inl e | Inr ts \<Rightarrow> Inr (t # ts))"

text \<open>
  \<^verbatim>\<open>ToString\<close>, used by template literals and by computed property keys. An array joins
  the texts of its elements, \<^verbatim>\<open>null\<close> and \<^verbatim>\<open>undefined\<close> giving the empty text. An object is
  converted by the \<^verbatim>\<open>toString\<close> it inherits; when it has a property \<^verbatim>\<open>toString\<close> of its own,
  that value is no function, \<^verbatim>\<open>valueOf\<close> gives no primitive either, and the conversion
  raises a TypeError.
\<close>

fun to_string :: "jsval \<Rightarrow> js_error + string" where
  "to_string JUndefined = Inr ''undefined''"
| "to_string JNull = Inr ''null''"
| "to_string (JBool b) = Inr (if b then ''true'' else ''false'')"
| "to_string (JNum t) = Inr t"
| "to_string (JStr s) = Inr s"
| "to_string (JArr xs) =
     (case all_results
             (map (\<lambda>x. case x of JUndefined \<Rightarrow> Inr [] | JNull \<Rightarrow> Inr [] | _ \<Rightarrow> to_string x) xs) of
        Inl e \<Rightarrow> Inl e
      | Inr ts \<Rightarrow> Inr (intercalate '','' ts))"
| "to_string (JObj kvs) =
     (case map_of kvs ''toString'' of
        None \<Rightarrow> Inr ''[object Object]''
      | Some v \<Rightarrow> Inl (Error ''Cannot convert object to primitive value''))"

subsection \<open>Plain objects\<close>

text \<open>
  An object literal is the map of its own properties; reading a property that is not its
  own goes on to \<^verbatim>\<open>Object.prototype\<close>, whose members are named here.
\<close>

type_synonym obj = "string \<rightharpoonup> jsval"

definition Object_prototype :: "string list" where
  "Object_prototype =
     [''constructor'', ''__defineGetter__'', ''__defineSetter__'', ''hasOwnProperty'',
      ''__lookupGetter__'', ''__lookupSetter__'', ''isPrototypeOf'', ''propertyIsEnumerable'',
      ''toString'', ''valueOf'', ''__proto__'', ''toLocaleString'']"

text \<open>What a property read gives: a value of the data, or a member of \<^verbatim>\<open>Object.prototype\<close>.\<close>

datatype member = Data jsval | Builtin string

text \<open>\<^verbatim>\<open>obj[key]\<close>, for a computed key.\<close>

definition object_get :: "obj \<Rightarrow> string \<Rightarrow> member" where
  "object_get ob k =
     (case ob k of
        Some v \<Rightarrow> Data v
      | None \<Rightarrow> if List.member Object_prototype k then Builtin k else Data JUndefined)"

text \<open>
  \<^verbatim>\<open>obj.name\<close>, for the names the script reads (\<^verbatim>\<open>greeting\<close>, \<^verbatim>\<open>title\<close>, \<^verbatim>\<open>placeholder\<close>,
  \<^verbatim>\<open>position\<close>, \<^verbatim>\<open>apiUrl\<close>, \<^verbatim>\<open>response\<close>): \<^verbatim>\<open>Object.prototype\<close> has none of them.
\<close>

definition data_get :: "obj \<Rightarrow> string \<Rightarrow> jsval" where
  "data_get ob name = (case ob name of Some v \<Rightarrow> v | None \<Rightarrow> JUndefined)"

text \<open>
  \<^verbatim>\<open>ToString\<close> of what a property read gives. A member of \<^verbatim>\<open>Object.prototype\<close> is a native
  function, rendered by the engine's source text for it; the member \<^verbatim>\<open>__proto__\<close> reads as
  the prototype object itself.
\<close>

definition member_text :: "member \<Rightarrow> js_error + string" where
  "member_text m =
     (case m of
        Data v \<Rightarrow> to_string v
      | Builtin n \<Rightarrow>
          Inr (if n = ''__proto__'' then ''[object Object]''
               else ''function '' @ (if n = ''constructor'' then ''Object'' else n)
                      @ ''() { [native code] }''))"

text \<open>
  \<^verbatim>\<open>{...a, ...b}\<close>: every own property of \<open>b\<close> is defined on a fresh copy of \<open>a\<close>.
\<close>

definition spread :: "obj \<Rightarrow> obj \<Rightarrow> obj" where
  "spread a b = a ++ b"

text \<open>
  \<^verbatim>\<open>Object.assign(target, source)\<close> assigns every own property of the source to the target.
  An assignment to \<^verbatim>\<open>__proto__\<close> stores the value when the target has a property of that
  name of its own; otherwise it goes to the accessor of \<^verbatim>\<open>Object.prototype\<close> and creates no
  own property. (The accessor replaces the prototype when the value is an object or
  \<^verbatim>\<open>null\<close>; the model follows the target while its prototype is \<^verbatim>\<open>Object.prototype\<close>. The
  script reads own properties of the configuration only, all from the defaults on.)
\<close>

definition Object_assign :: "obj \<Rightarrow> obj \<Rightarrow> obj" where
  "Object_assign target source =
     (if target ''__proto__'' = None then target ++ (source |` (- {''__proto__''}))
      else target ++ source)"

section \<open>Widget configuration and state\<close>

text \<open>
  \<^verbatim>\<open>defaultConfig\<close> reads \<^verbatim>\<open>window.location\<close>: its host name and protocol are parameters.
\<close>

definition defaultConfig :: "string \<Rightarrow> string \<Rightarrow> obj" where
  "defaultConfig hostname protocol = map_of
     [(''apiUrl'', JBool (hostname = ''https://medical-ai-chatbot-backend.onrender.com'')),
      (''theme'', JStr ''blue''),
      (''position'', JStr ''bottom-right''),
      (''greeting'', JStr ''Hello! I'm your Medical AI Assistant. How can I help you today?''),
      (''title'', JStr ''Medical AI Assistant''),
      (''placeholder'', JStr ''Ask me about your health...''),
      (''width'', JStr ''350px''),
      (''height'', JStr ''500px''),
      (''testMode'', JBool (hostname = ''localhost'' \<or> hostname = ''127.0.0.1''
                              \<or> protocol = ''file:''))]"

text \<open>
  \<^verbatim>\<open>window.MedicalAIWidgetConfig ? {...defaultConfig, ...window.MedicalAIWidgetConfig} : defaultConfig\<close>;
  \<open>None\<close> is a page that sets no configuration.
\<close>

definition initial_config :: "string \<Rightarrow> string \<Rightarrow> obj option \<Rightarrow> obj" where
  "initial_config hostname protocol user =
     (case user of
        Some u \<Rightarrow> spread (defaultConfig hostname protocol) u
      | None \<Rightarrow> defaultConfig hostname protocol)"

datatype role = User | Assistant

text \<open>
  A clock reading, in milliseconds; a message's timestamp is the reading that
  \<^verbatim>\<open>new Date().toISOString()\<close> renders.
\<close>

type_synonym instant = int

record message =
  role :: role
  content :: jsval
  timestamp :: instant

record widget =
  config :: obj
  isOpen :: bool
  isMinimized :: bool
  isLoading :: bool
  messages :: "message list"
  sessionId :: string
  userId :: string

text \<open>
  \<^verbatim>\<open>'widget_' + Date.now() + '_' + Math.random().toString(36).substr(2, 9)\<close>. The clock
  reading is \<open>now\<close>, and \<open>rnd\<close> is the base-36 text of the random draw (\<^verbatim>\<open>0.\<close> and its digits).
\<close>

definition new_session_id :: "instant \<Rightarrow> string \<Rightarrow> string" where
  "new_session_id now rnd = ''widget_'' @ show_int now @ ''_'' @ take 9 (drop 2 rnd)"

definition greeting_message :: "obj \<Rightarrow> instant \<Rightarrow> message" where
  "greeting_message cfg stamp =
     \<lparr>role = Assistant, content = data_get cfg ''greeting'', timestamp = stamp\<rparr>"

text \<open>The state the script starts in, once it has loaded.\<close>

definition initial_widget :: "obj \<Rightarrow> instant \<Rightarrow> instant \<Rightarrow> string \<Rightarrow> widget" where
  "initial_widget cfg stamp now rnd =
     \<lparr>config = cfg, isOpen = False, isMinimized = False, isLoading = False,
      messages = [greeting_message cfg stamp],
      sessionId = new_session_id now rnd, userId = ''anonymous''\<rparr>"

section \<open>The markdown renderer\<close>

subsection \<open>Regular-expression replacements\<close>

text \<open>
  Each \<^verbatim>\<open>replace\<close> of \<^verbatim>\<open>parseMarkdown\<close> is a function on the text. The dot of a pattern
  stops at a line terminator, and with the flag \<^verbatim>\<open>m\<close> a line starts after one. The line
  terminators among the code units below 256 are the line feed and the carriage return.
\<close>

definition line_terminator :: "char \<Rightarrow> bool" where
  "line_terminator c = (c = CHR 0x0A \<or> c = CHR 0x0D)"

fun strip_prefix :: "string \<Rightarrow> string \<Rightarrow> string option" where
  "strip_prefix [] s = Some s"
| "strip_prefix (p # ps) [] = None"
| "strip_prefix (p # ps) (c # cs) = (if p = c then strip_prefix ps cs else None)"

text \<open>
  A pattern \<^verbatim>\<open>/^...(.*$)/gim\<close> can only match at the start of a line and then takes the
  whole line: the replacement acts on every line by itself. \<open>per_line f line s\<close> scans \<open>s\<close>
  with the part of the current line read so far in \<open>line\<close>.
\<close>

fun per_line :: "(string \<Rightarrow> string) \<Rightarrow> string \<Rightarrow> string \<Rightarrow> string" where
  "per_line f line [] = f line"
| "per_line f line (c # cs) =
     (if line_terminator c then f line @ c # per_line f [] cs
      else per_line f (line @ [c]) cs)"

text \<open>\<^verbatim>\<open>/^P(.*$)/gim\<close> with the replacement \<^verbatim>\<open>A$1B\<close>, for a literal prefix \<open>P\<close>, on one line.\<close>

definition prefixed :: "string \<Rightarrow> string \<Rightarrow> string \<Rightarrow> string \<Rightarrow> string" where
  "prefixed p a b line =
     (case strip_prefix p line of Some rest \<Rightarrow> a @ rest @ b | None \<Rightarrow> line)"

definition is_digit :: "char \<Rightarrow> bool" where
  "is_digit c = (c \<in> set ''0123456789'')"

text \<open>\<^verbatim>\<open>/^\d+\. (.*$)/gim\<close> with the replacement \<^verbatim>\<open><li>$1</li>\<close>, on one line.\<close>

definition numbered :: "string \<Rightarrow> string" where
  "numbered line =
     (if takeWhile is_digit line = [] then line
      else case strip_prefix ''. '' (dropWhile is_digit line) of
             Some rest \<Rightarrow> ''<li>'' @ rest @ ''</li>''
           | None \<Rightarrow> line)"

text \<open>
  The lazy group of \<^verbatim>\<open>/D(.*?)D/\<close> after an opening delimiter: the shortest text up to the
  next \<open>D\<close>, and what follows that \<open>D\<close>. Without \<open>dotall\<close> (the group \<^verbatim>\<open>[\s\S]*?\<close>) the
  text cannot run over a line terminator.
\<close>

fun find_close :: "string \<Rightarrow> bool \<Rightarrow> string \<Rightarrow> (string \<times> string) option" where
  "find_close d dotall [] = (if d = [] then Some ([], []) else None)"
| "find_close d dotall (c # cs) =
     (case strip_prefix d (c # cs) of
        Some after \<Rightarrow> Some ([], after)
      | None \<Rightarrow>
          if line_terminator c \<and> \<not> dotall then None
          else (case find_close d dotall cs of
                  Some (body, after) \<Rightarrow> Some (c # body, after)
                | None \<Rightarrow> None))"

lemma strip_prefix_length: "strip_prefix p s = Some r \<Longrightarrow> length s = length p + length r"
  by (induction p s rule: strip_prefix.induct) (auto split: if_splits)

lemma find_close_length:
  "find_close d dotall s = Some (body, after) \<Longrightarrow> length after \<le> length s"
proof (induction s arbitrary: body)
  case Nil
  then show ?case by (simp split: if_splits)
next
  case (Cons c cs)
  show ?case
  proof (cases "strip_prefix d (c # cs)")
    case (Some r)
    with Cons.prems have "after = r" by simp
    with strip_prefix_length [OF Some] show ?thesis by simp
  next
    case None
    with Cons.prems obtain b where "find_close d dotall cs = Some (b, after)"
      by (auto split: if_splits option.splits)
    from Cons.IH [OF this] show ?thesis by simp
  qed
qed

text \<open>
  \<^verbatim>\<open>/D(.*?)D/g\<close> with the replacement \<^verbatim>\<open>A$1B\<close>: the leftmost match first, the search going
  on behind it; where no match starts, the character stays. Every delimiter of the
  script is non-empty.
\<close>

function delimited :: "string \<Rightarrow> bool \<Rightarrow> string \<Rightarrow> string \<Rightarrow> string \<Rightarrow> string" where
  "delimited d dotall a b [] = []"
| "delimited [] dotall a b (c # cs) = c # cs"
| "delimited (d # ds) dotall a b (c # cs) =
     (case strip_prefix (d # ds) (c # cs) of
        None \<Rightarrow> c # delimited (d # ds) dotall a b cs
      | Some rest \<Rightarrow>
          (case find_close (d # ds) dotall rest of
             None \<Rightarrow> c # delimited (d # ds) dotall a b cs
           | Some (body, after) \<Rightarrow> a @ body @ b @ delimited (d # ds) dotall a b after))"
  by pat_completeness auto
termination
proof (relation "measure (\<lambda>(d, dotall, a, b, s). length s)", goal_cases)
  case 1
  show ?case by simp
next
  case (2 d ds dotall a b c cs)
  show ?case by simp
next
  case (3 d ds dotall a b c cs rest)
  show ?case by simp
next
  case (4 d ds dotall a b c cs rest x body after)
  from strip_prefix_length [OF 4(1)] find_close_length [of "d # ds" dotall rest body after] 4(2,3)
  show ?case by simp
qed

text \<open>\<^verbatim>\<open>/\n\n/g\<close> to \<^verbatim>\<open></p><p>\<close>, then \<^verbatim>\<open>/\n/g\<close> to \<^verbatim>\<open><br>\<close>.\<close>

fun paragraph_breaks :: "string \<Rightarrow> string" where
  "paragraph_breaks (c # c' # cs) =
     (if c = CHR 0x0A \<and> c' = CHR 0x0A then ''</p><p>'' @ paragraph_breaks cs
      else c # paragraph_breaks (c' # cs))"
| "paragraph_breaks cs = cs"

fun line_breaks :: "string \<Rightarrow> string" where
  "line_breaks [] = []"
| "line_breaks (c # cs) =
     (if c = CHR 0x0A then ''<br>'' @ line_breaks cs else c # line_breaks cs)"

text \<open>
  The greedy group of \<^verbatim>\<open>/(<li>.*<\/li>)/s\<close> after an opening \<^verbatim>\<open><li>\<close>: the text up to the
  last \<^verbatim>\<open></li>\<close>, and what follows it.
\<close>

fun last_close :: "string \<Rightarrow> (string \<times> string) option" where
  "last_close [] = None"
| "last_close (c # cs) =
     (case last_close cs of
        Some (body, after) \<Rightarrow> Some (c # body, after)
      | None \<Rightarrow>
          (case strip_prefix ''</li>'' (c # cs) of
             Some after \<Rightarrow> Some ([], after)
           | None \<Rightarrow> None))"

text \<open>
  \<^verbatim>\<open>html.replace(/(<li>.*<\/li>)/s, '<ul>$1</ul>')\<close>: no flag \<^verbatim>\<open>g\<close>, so the first match only.
\<close>

fun wrap_list :: "string \<Rightarrow> string" where
  "wrap_list [] = []"
| "wrap_list (c # cs) =
     (case strip_prefix ''<li>'' (c # cs) of
        None \<Rightarrow> c # wrap_list cs
      | Some rest \<Rightarrow>
          (case last_close rest of
             None \<Rightarrow> c # wrap_list cs
           | Some (body, after) \<Rightarrow> ''<ul><li>'' @ body @ ''</li></ul>'' @ after))"

text \<open>\<^verbatim>\<open>html.includes(part)\<close>\<close>

fun includes_str :: "string \<Rightarrow> string \<Rightarrow> bool" where
  "includes_str [] part = (part = [])"
| "includes_str (c # cs) part =
     (case strip_prefix part (c # cs) of Some rest \<Rightarrow> True | None \<Rightarrow> includes_str cs part)"

subsection \<open>parseMarkdown\<close>

definition headers :: "string \<Rightarrow> string" where
  "headers text =
     (let t = per_line (prefixed ''### '' ''<h3>'' ''</h3>'') [] text;
          t = per_line (prefixed ''## '' ''<h2>'' ''</h2>'') [] t
      in per_line (prefixed ''# '' ''<h1>'' ''</h1>'') [] t)"

definition bold :: "string \<Rightarrow> string" where
  "bold text =
     (let t = delimited ''**'' False ''<strong>'' ''</strong>'' text
      in delimited ''__'' False ''<strong>'' ''</strong>'' t)"

definition italic :: "string \<Rightarrow> string" where
  "italic text =
     (let t = delimited ''*'' False ''<em>'' ''</em>'' text
      in delimited ''_'' False ''<em>'' ''</em>'' t)"

definition code_blocks :: "string \<Rightarrow> string" where
  "code_blocks text =
     (let t = delimited ''```'' True ''<pre><code>'' ''</code></pre>'' text
      in delimited ''`'' False ''<code>'' ''</code>'' t)"

definition list_items :: "string \<Rightarrow> string" where
  "list_items text =
     (let t = per_line (prefixed ''* '' ''<li>'' ''</li>'') [] text;
          t = per_line (prefixed ''- '' ''<li>'' ''</li>'') [] t;
          t = per_line (prefixed ''+ '' ''<li>'' ''</li>'') [] t
      in per_line numbered [] t)"

text \<open>The chain of replacements that gives \<^verbatim>\<open>html\<close> its first value.\<close>

definition replacements :: "string \<Rightarrow> string" where
  "replacements text =
     line_breaks (paragraph_breaks (list_items (code_blocks (italic (bold (headers text))))))"

text \<open>The rest of the function, from \<^verbatim>\<open>// Wrap lists in ul tags\<close> on.\<close>

definition finish :: "string \<Rightarrow> string" where
  "finish html0 =
     (let html = wrap_list html0
      in if \<not> includes_str html ''<h1>'' \<and> \<not> includes_str html ''<h2>''
            \<and> \<not> includes_str html ''<h3>'' \<and> \<not> includes_str html ''<ul>''
            \<and> \<not> includes_str html ''<pre>''
         then ''<p>'' @ html @ ''</p>''
         else html)"

text \<open>
  \<^verbatim>\<open>parseMarkdown(text)\<close>: a falsy argument gives the empty string; an argument that is
  truthy and no string has no method \<^verbatim>\<open>replace\<close>, and the call raises.
\<close>

definition parseMarkdown :: "jsval \<Rightarrow> js_error + string" where
  "parseMarkdown text =
     (if \<not> truthy text then Inr []
      else case text of
             JStr s \<Rightarrow> Inr (finish (replacements s))
           | _ \<Rightarrow> Inl (Error ''text.replace is not a function''))"

section \<open>Placement of the container\<close>

definition positions :: obj where
  "positions = map_of
     [(''bottom-right'', JStr ''bottom: 20px; right: 20px;''),
      (''bottom-left'', JStr ''bottom: 20px; left: 20px;''),
      (''top-right'', JStr ''top: 20px; right: 20px;''),
      (''top-left'', JStr ''top: 20px; left: 20px;'')]"

text \<open>
  \<^verbatim>\<open>positions[config.position] || positions['bottom-right']\<close>, the value the template of
  \<^verbatim>\<open>cssText\<close> interpolates after \<^verbatim>\<open>position: fixed;\<close>. The key is the text of the configured
  position; a member of \<^verbatim>\<open>Object.prototype\<close> is truthy.
\<close>

definition placement :: "obj \<Rightarrow> js_error + member" where
  "placement cfg =
     (case to_string (data_get cfg ''position'') of
        Inl e \<Rightarrow> Inl e
      | Inr key \<Rightarrow>
          Inr (case object_get positions key of
                 Builtin n \<Rightarrow> Builtin n
               | Data v \<Rightarrow> if truthy v then Data v else object_get positions ''bottom-right''))"

section \<open>Rendering\<close>

text \<open>
  \<^verbatim>\<open>render()\<close> rebuilds the markup from the state and changes no state variable. It calls
  \<^verbatim>\<open>renderChat()\<close> when the widget is open. That function calls \<^verbatim>\<open>parseMarkdown\<close> on the content
  of every assistant message and interpolates the content of every user message, the
  configured title and, when the widget is not minimized, the configured placeholder:
  where one of these calls or conversions raises, \<^verbatim>\<open>render()\<close> raises.
\<close>

definition message_raises :: "message \<Rightarrow> bool" where
  "message_raises m =
     (case role m of
        Assistant \<Rightarrow> isl (parseMarkdown (content m))
      | User \<Rightarrow> isl (to_string (content m)))"

definition renderChat_raises :: "widget \<Rightarrow> bool" where
  "renderChat_raises w =
     (if list_ex message_raises (messages w) then True
      else if isl (to_string (data_get (config w) ''title'')) then True
      else if isMinimized w then False
      else isl (to_string (data_get (config w) ''placeholder'')))"

definition render_raises :: "widget \<Rightarrow> bool" where
  "render_raises w = (isOpen w \<and> renderChat_raises w)"

section \<open>The control surface\<close>

text \<open>
  Each operation assigns to the state variables and then calls \<^verbatim>\<open>render()\<close>; the function
  gives the state the assignments leave, which an exception of that last call
  does not change.
\<close>

definition open_widget :: "widget \<Rightarrow> widget" where
  "open_widget w = w\<lparr>isOpen := True, isMinimized := False\<rparr>"

definition close_widget :: "widget \<Rightarrow> widget" where
  "close_widget w = w\<lparr>isOpen := False\<rparr>"

definition minimize :: "widget \<Rightarrow> widget" where
  "minimize w = w\<lparr>isMinimized := \<not> isMinimized w\<rparr>"

text \<open>
  \<^verbatim>\<open>reset\<close> reads the clock twice, \<open>stamp\<close> for the greeting and \<open>now\<close> for the identifier, and
  draws \<open>rnd\<close>.
\<close>

definition reset :: "instant \<Rightarrow> instant \<Rightarrow> string \<Rightarrow> widget \<Rightarrow> widget" where
  "reset stamp now rnd w =
     w\<lparr>messages := [greeting_message (config w) stamp],
       sessionId := new_session_id now rnd\<rparr>"

definition configure :: "obj \<Rightarrow> widget \<Rightarrow> widget" where
  "configure newConfig w = w\<lparr>config := Object_assign (config w) newConfig\<rparr>"

section \<open>sendMessage\<close>

definition js_whitespace :: "char \<Rightarrow> bool" where
  "js_whitespace c =
     (c \<in> set [CHR 0x09, CHR 0x0A, CHR 0x0B, CHR 0x0C, CHR 0x0D, CHR 0x20, CHR 0xA0])"

text \<open>\<^verbatim>\<open>String.prototype.trim\<close>\<close>

definition trim :: "string \<Rightarrow> string" where
  "trim s = rev (dropWhile js_whitespace (rev (dropWhile js_whitespace s)))"

text \<open>
  The call of \<^verbatim>\<open>fetch\<close>: the address, and the fields of the JSON body that vary (its
  \<^verbatim>\<open>context\<close> is a constant).
\<close>

record request =
  url :: string
  message :: string
  conversation_id :: string
  user_id :: string

text \<open>
  What the network gives back. \<^verbatim>\<open>fetch\<close> rejects with an error, or resolves to a response
  with a status and a status text; \<^verbatim>\<open>response.json()\<close> rejects with an error when the body
  is no JSON text, or resolves to the value parsed.
\<close>

datatype body = NotJson string | Json jsval

datatype outcome = Rejected string | Responded nat string body

text \<open>\<^verbatim>\<open>response.ok\<close>\<close>

definition response_ok :: "nat \<Rightarrow> bool" where
  "response_ok status = (200 \<le> status \<and> status \<le> 299)"

text \<open>
  \<^verbatim>\<open>data.response\<close>. Reading a property of \<^verbatim>\<open>null\<close> raises a TypeError, with the engine's
  text; no prototype of a string, a number, a boolean or an array has a member
  \<^verbatim>\<open>response\<close>.
\<close>

definition response_field :: "jsval \<Rightarrow> js_error + jsval" where
  "response_field data =
     (case data of
        JNull \<Rightarrow> Inl (Error ''Cannot read properties of null (reading 'response')'')
      | JUndefined \<Rightarrow> Inl (Error ''Cannot read properties of undefined (reading 'response')'')
      | JObj kvs \<Rightarrow> Inr (data_get (map_of kvs) ''response'')
      | _ \<Rightarrow> Inr JUndefined)"

definition apology :: string where
  "apology = ''I apologize, but I couldn't process your request properly.''"

text \<open>
  The \<^verbatim>\<open>try\<close> block after the request is sent: the content of the answer, or the error that
  the \<^verbatim>\<open>catch\<close> clause receives.
\<close>

definition exchange :: "outcome \<Rightarrow> js_error + jsval" where
  "exchange out =
     (case out of
        Rejected m \<Rightarrow> Inl (Error m)
      | Responded status statusText b \<Rightarrow>
          if \<not> response_ok status
          then Inl (Error (''HTTP '' @ show_int (int status) @ '': '' @ statusText))
          else (case b of
                  NotJson m \<Rightarrow> Inl (Error m)
                | Json data \<Rightarrow>
                    (case response_field data of
                       Inl e \<Rightarrow> Inl e
                     | Inr r \<Rightarrow> Inr (js_or r (JStr apology)))))"

definition error_content :: "string \<Rightarrow> string" where
  "error_content m =
     ''I apologize, but I'm having trouble connecting right now. Error: '' @ m
       @ ''. Please try again later or consult a healthcare professional for urgent medical concerns.''"

definition reply_content :: "outcome \<Rightarrow> jsval" where
  "reply_content out =
     (case exchange out of
        Inr v \<Rightarrow> v
      | Inl e \<Rightarrow> JStr (error_content (message_of e)))"

text \<open>
  \<^verbatim>\<open>sendMessage\<close> is asynchronous. Its first part runs to the \<^verbatim>\<open>await\<close> of \<^verbatim>\<open>fetch\<close>; the
  argument \<open>input\<close> is the value of the text area \<^verbatim>\<open>widget-input-<sessionId>\<close>, \<open>None\<close> when
  the page has no such element. The part ends in one of four ways: the call returned
  early; the \<^verbatim>\<open>render()\<close> before the \<^verbatim>\<open>try\<close> block raised, which ends the call; the template
  of the address raised inside the \<^verbatim>\<open>try\<close> block, which the \<^verbatim>\<open>catch\<close> clause receives; or the
  request is on its way. Clearing the text area is an effect on the page, not on the
  state.
\<close>

datatype started = Ignored | Aborted widget | Raised widget js_error | Awaiting widget request

text \<open>The request the first part has made, if any.\<close>

fun request_of :: "started \<Rightarrow> request option" where
  "request_of Ignored = None"
| "request_of (Aborted w) = None"
| "request_of (Raised w e) = None"
| "request_of (Awaiting w rq) = Some rq"

definition sendMessage_begin :: "string option \<Rightarrow> instant \<Rightarrow> widget \<Rightarrow> started" where
  "sendMessage_begin input stamp w =
     (case input of
        None \<Rightarrow> Ignored
      | Some v \<Rightarrow>
          let msg = trim v in
          if msg = [] \<or> isLoading w then Ignored
          else
            let w1 = w\<lparr>messages := messages w @ [\<lparr>role = User, content = JStr msg, timestamp = stamp\<rparr>],
                        isLoading := True\<rparr>
            in if render_raises w1 then Aborted w1
               else (case to_string (data_get (config w1) ''apiUrl'') of
                       Inl e \<Rightarrow> Raised w1 e
                     | Inr base \<Rightarrow>
                         Awaiting w1
                           \<lparr>url = base @ ''/api/chat/widget-default'',
                            message = msg, conversation_id = sessionId w1, user_id = userId w1\<rparr>))"

text \<open>
  The \<^verbatim>\<open>catch\<close> clause and the two statements after it: the error message is appended and
  \<^verbatim>\<open>isLoading\<close> is cleared before the last \<^verbatim>\<open>render()\<close>.
\<close>

definition caught :: "js_error \<Rightarrow> instant \<Rightarrow> widget \<Rightarrow> widget" where
  "caught e stamp w =
     w\<lparr>messages := messages w @
          [\<lparr>role = Assistant, content = JStr (error_content (message_of e)), timestamp = stamp\<rparr>],
       isLoading := False\<rparr>"

text \<open>
  The second part runs when the request has settled, on the state of that moment: the
  answer or the error message is appended, and \<^verbatim>\<open>isLoading\<close> is cleared before the last
  \<^verbatim>\<open>render()\<close>.
\<close>

definition sendMessage_settle :: "outcome \<Rightarrow> instant \<Rightarrow> widget \<Rightarrow> widget" where
  "sendMessage_settle out stamp w =
     w\<lparr>messages := messages w @ [\<lparr>role = Assistant, content = reply_content out, timestamp = stamp\<rparr>],
       isLoading := False\<rparr>"

text \<open>A whole call, with no other handler running while the request is out.\<close>

definition sendMessage :: "string option \<Rightarrow> instant \<Rightarrow> outcome \<Rightarrow> instant \<Rightarrow> widget \<Rightarrow> widget" where
  "sendMessage input stamp out stamp' w =
     (case sendMessage_begin input stamp w of
        Ignored \<Rightarrow> w
      | Aborted w1 \<Rightarrow> w1
      | Raised w1 e \<Rightarrow> caught e stamp' w1
      | Awaiting w1 rq \<Rightarrow> sendMessage_settle out stamp' w1)"

section \<open>Notions of the properties\<close>

text \<open>How often a text occurs in another, overlapping occurrences counted.\<close>

fun occurrences :: "string \<Rightarrow> string \<Rightarrow> nat" where
  "occurrences [] part = (if part = [] then 1 else 0)"
| "occurrences (c # cs) part =
     (case strip_prefix part (c # cs) of Some rest \<Rightarrow> 1 | None \<Rightarrow> 0) + occurrences cs part"

text \<open>
  A run of list-item elements as the renderer leaves it: one element per line, with the
  line breaks between them.
\<close>

definition li_run :: "string list \<Rightarrow> string" where
  "li_run items = intercalate ''<br>'' (map (\<lambda>r. ''<li>'' @ r @ ''</li>'') items)"

text \<open>The start of a list line: a star, a dash, a plus or a number with a dot, and a space.\<close>

definition list_marker :: "string \<Rightarrow> bool" where
  "list_marker m =
     (m = ''* '' \<or> m = ''- '' \<or> m = ''+ ''
      \<or> (takeWhile is_digit m \<noteq> [] \<and> dropWhile is_digit m = ''. ''))"

text \<open>A text with no line terminator.\<close>

definition one_line :: "string \<Rightarrow> bool" where
  "one_line s = list_all (\<lambda>c. \<not> line_terminator c) s"

section \<open>Example states\<close>

text \<open>
  A page that sets no configuration, with the widget opened; and the same widget while
  a request is out.
\<close>

definition example_widget :: widget where
  "example_widget =
     open_widget (initial_widget (initial_config ''example.org'' ''https:'' None)
        1700000000000 1700000000000 ''0.k3x9q2m1zab'')"

definition loading_widget :: widget where
  "loading_widget = example_widget\<lparr>isLoading := True\<rparr>"

section \<open>Properties of the control surface\<close>

lemma list_all_dropWhile: "list_all P (dropWhile P s) \<longleftrightarrow> list_all P s"
  by (induction s) auto

lemma trim_empty_iff: "trim s = [] \<longleftrightarrow> list_all js_whitespace s"
proof -
  have "trim s = [] \<longleftrightarrow> list_all js_whitespace (dropWhile js_whitespace s)"
    by (simp add: trim_def dropWhile_eq_Nil_conv list_all_iff)
  then show ?thesis
    by (simp add: list_all_dropWhile)
qed

text \<open>
  C9: \<^verbatim>\<open>close()\<close> clears \<open>isOpen\<close> and leaves the transcript and the session identifier as
  they were; \<^verbatim>\<open>reset()\<close> leaves \<open>isOpen\<close> and \<open>isMinimized\<close> as they were. This holds in every
  state.
\<close>

theorem close_and_reset_frame:
  "isOpen (close_widget w) = False
   \<and> messages (close_widget w) = messages w
   \<and> sessionId (close_widget w) = sessionId w
   \<and> isOpen (reset stamp now rnd w) = isOpen w
   \<and> isMinimized (reset stamp now rnd w) = isMinimized w"
  by (simp add: close_widget_def reset_def)

text \<open>
  C2: while \<open>isLoading\<close> is set, a call of \<^verbatim>\<open>sendMessage\<close> returns early, whatever the text
  area holds: no request is made, and the state (the transcript with it) is unchanged.
\<close>

theorem sendMessage_while_loading:
  assumes "isLoading w"
  shows "sendMessage_begin input stamp w = Ignored
         \<and> request_of (sendMessage_begin input stamp w) = None
         \<and> sendMessage input stamp out stamp' w = w"
proof -
  have "sendMessage_begin input stamp w = Ignored"
    using assms by (cases input) (simp_all add: sendMessage_begin_def Let_def)
  then show ?thesis
    by (simp add: sendMessage_def)
qed

theorem sendMessage_while_loading_witness:
  "isLoading loading_widget
   \<and> sendMessage_begin (Some ''second question'') 1700000060000 loading_widget = Ignored
   \<and> request_of (sendMessage_begin (Some ''second question'') 1700000060000 loading_widget) = None
   \<and> sendMessage (Some ''second question'') 1700000060000 (Rejected ''Failed to fetch'')
         1700000061000 loading_widget
       = loading_widget"
proof -
  have l: "isLoading loading_widget"
    by (simp add: loading_widget_def)
  from l sendMessage_while_loading [OF l] show ?thesis
    by simp
qed

text \<open>
  C4: when the text area holds nothing but whitespace (the empty text too), its trimmed
  value is empty and \<^verbatim>\<open>sendMessage\<close> returns early: no request is made, nothing is
  appended, and every state variable keeps its value.
\<close>

theorem sendMessage_blank_input:
  assumes "list_all js_whitespace v"
  shows "trim v = []
         \<and> sendMessage_begin (Some v) stamp w = Ignored
         \<and> request_of (sendMessage_begin (Some v) stamp w) = None
         \<and> sendMessage (Some v) stamp out stamp' w = w"
proof -
  from assms have t: "trim v = []"
    by (simp add: trim_empty_iff)
  then have "sendMessage_begin (Some v) stamp w = Ignored"
    by (simp add: sendMessage_begin_def)
  with t show ?thesis
    by (simp add: sendMessage_def)
qed

theorem sendMessage_blank_input_witness:
  "list_all js_whitespace [CHR '' '', CHR 0x09, CHR 0x0A, CHR '' '']
   \<and> sendMessage_begin (Some [CHR '' '', CHR 0x09, CHR 0x0A, CHR '' '']) 1700000060000 example_widget
       = Ignored
   \<and> request_of (sendMessage_begin (Some [CHR '' '', CHR 0x09, CHR 0x0A, CHR '' '']) 1700000060000
         example_widget) = None
   \<and> sendMessage (Some [CHR '' '', CHR 0x09, CHR 0x0A, CHR '' '']) 1700000060000
         (Rejected ''Failed to fetch'') 1700000061000
         example_widget = example_widget"
proof -
  have b: "list_all js_whitespace [CHR '' '', CHR 0x09, CHR 0x0A, CHR '' '']"
    by (simp add: js_whitespace_def)
  from b sendMessage_blank_input [OF b] show ?thesis
    by simp
qed

text \<open>
  C5: \<^verbatim>\<open>configure(partial)\<close> merges the partial object into the configuration key by key.
  No key of the configuration is dropped, a key the partial does not mention keeps its
  value, and a key the partial mentions takes the supplied value (the accessor name
  \<^verbatim>\<open>__proto__\<close>, which is no configuration key, apart). The configuration the script starts
  with merges the page's object into the defaults in the same way.
\<close>

theorem configure_shallow_merge:
  "dom (config w) \<subseteq> dom (config (configure newConfig w))
   \<and> (\<forall>k. newConfig k = None \<longrightarrow> config (configure newConfig w) k = config w k)
   \<and> (\<forall>k v. newConfig k = Some v \<and> k \<noteq> ''__proto__''
          \<longrightarrow> config (configure newConfig w) k = Some v)
   \<and> (\<forall>k. initial_config hostname protocol (Some user) k =
          (case user k of Some v \<Rightarrow> Some v | None \<Rightarrow> defaultConfig hostname protocol k))"
proof -
  have 1: "dom (config w) \<subseteq> dom (config (configure newConfig w))"
    by (auto simp: configure_def Object_assign_def)
  have 2: "\<forall>k. newConfig k = None \<longrightarrow> config (configure newConfig w) k = config w k"
    by (simp add: configure_def Object_assign_def map_add_def restrict_map_def)
  have 3: "\<forall>k v. newConfig k = Some v \<and> k \<noteq> ''__proto__''
             \<longrightarrow> config (configure newConfig w) k = Some v"
    by (simp add: configure_def Object_assign_def map_add_def restrict_map_def)
  have 4: "\<forall>k. initial_config hostname protocol (Some user) k =
             (case user k of Some v \<Rightarrow> Some v | None \<Rightarrow> defaultConfig hostname protocol k)"
    by (simp add: initial_config_def spread_def map_add_def split: option.splits)
  from 1 2 3 4 show ?thesis
    by blast
qed

theorem configure_shallow_merge_witness:
  "[''theme'' \<mapsto> JStr ''dark'', ''position'' \<mapsto> JStr ''top-left''] ''greeting'' = None
   \<and> config (configure [''theme'' \<mapsto> JStr ''dark'', ''position'' \<mapsto> JStr ''top-left''] example_widget)
        ''greeting''
       = Some (JStr ''Hello! I'm your Medical AI Assistant. How can I help you today?'')
   \<and> [''theme'' \<mapsto> JStr ''dark'', ''position'' \<mapsto> JStr ''top-left''] ''theme'' = Some (JStr ''dark'')
   \<and> ''theme'' \<noteq> ''__proto__''
   \<and> config (configure [''theme'' \<mapsto> JStr ''dark'', ''position'' \<mapsto> JStr ''top-left''] example_widget)
        ''theme''
       = Some (JStr ''dark'')"
proof -
  have g: "config example_widget ''greeting''
             = Some (JStr ''Hello! I'm your Medical AI Assistant. How can I help you today?'')"
    by (simp add: example_widget_def open_widget_def initial_widget_def initial_config_def
        defaultConfig_def)
  from g configure_shallow_merge
         [of example_widget "[''theme'' \<mapsto> JStr ''dark'', ''position'' \<mapsto> JStr ''top-left'']"]
  show ?thesis
    by simp
qed

section \<open>Session identifiers\<close>

lemma digit_char_inj:
  assumes "a < 10" and "b < 10" and "''0123456789'' ! a = ''0123456789'' ! b"
  shows "a = b"
proof -
  have "distinct ''0123456789''" by simp
  moreover have "a < length ''0123456789''" "b < length ''0123456789''"
    using assms(1,2) by simp_all
  ultimately show ?thesis
    using assms(3) by (simp only: nth_eq_iff_index_eq)
qed

lemma digit_char_is_digit: "a < 10 \<Longrightarrow> is_digit (''0123456789'' ! a)"
proof -
  assume "a < 10"
  then have "a < length ''0123456789''" by simp
  then have "''0123456789'' ! a \<in> set ''0123456789''" by (rule nth_mem)
  then show ?thesis by (simp only: is_digit_def)
qed

lemma digits_not_Nil: "digits n \<noteq> []"
  by (subst digits.simps) simp

lemma digits_all_digit: "list_all is_digit (digits n)"
proof (induction n rule: digits.induct)
  case (1 n)
  show ?case
  proof (cases "n < 10")
    case True
    then show ?thesis
      by (subst digits.simps) (simp add: digit_char_is_digit)
  next
    case False
    with 1 have "list_all is_digit (digits (n div 10))" by simp
    moreover have "is_digit (''0123456789'' ! (n mod 10))"
      by (rule digit_char_is_digit) simp
    ultimately show ?thesis
      using False by (subst digits.simps) simp
  qed
qed

lemma digits_inj: "digits n = digits m \<Longrightarrow> n = m"
proof (induction n arbitrary: m rule: digits.induct)
  case (1 n)
  show ?case
  proof (cases "n < 10")
    case n: True
    show ?thesis
    proof (cases "m < 10")
      case True
      with n 1(2) show ?thesis
        by (simp add: digits.simps [of n] digits.simps [of m] digit_char_inj)
    next
      case False
      with n 1(2) digits_not_Nil [of "m div 10"] show ?thesis
        by (simp add: digits.simps [of n] digits.simps [of m])
    qed
  next
    case n: False
    show ?thesis
    proof (cases "m < 10")
      case True
      with n 1(2) digits_not_Nil [of "n div 10"] show ?thesis
        by (simp add: digits.simps [of n] digits.simps [of m])
    next
      case False
      with n 1(2) have e: "digits (n div 10) = digits (m div 10)"
        and d: "''0123456789'' ! (n mod 10) = ''0123456789'' ! (m mod 10)"
        by (simp_all add: digits.simps [of n] digits.simps [of m])
      from 1(1) [OF n e] have "n div 10 = m div 10" .
      moreover from d have "n mod 10 = m mod 10"
        by (intro digit_char_inj) simp_all
      ultimately show ?thesis
        by (metis div_mult_mod_eq)
    qed
  qed
qed

lemma is_digit_not_minus: "is_digit c \<Longrightarrow> c \<noteq> CHR ''-''"
  by (auto simp: is_digit_def)

lemma is_digit_not_underscore: "is_digit c \<Longrightarrow> c \<noteq> CHR ''_''"
  by (auto simp: is_digit_def)

lemma show_int_inj: "show_int a = show_int b \<Longrightarrow> a = b"
proof -
  assume e: "show_int a = show_int b"
  have h: "hd (digits n) \<noteq> CHR ''-''" for n
    using digits_all_digit [of n] digits_not_Nil [of n]
    by (cases "digits n") (auto dest: is_digit_not_minus)
  show ?thesis
  proof (cases "a < 0")
    case a: True
    show ?thesis
    proof (cases "b < 0")
      case True
      with a e have "digits (nat (- a)) = digits (nat (- b))" by (simp add: show_int_def)
      then have "nat (- a) = nat (- b)" by (rule digits_inj)
      with a True show ?thesis by simp
    next
      case False
      with a e have "CHR ''-'' # digits (nat (- a)) = digits (nat b)" by (simp add: show_int_def)
      with h [of "nat b"] show ?thesis by (metis list.sel(1))
    qed
  next
    case a: False
    show ?thesis
    proof (cases "b < 0")
      case True
      with a e have "digits (nat a) = CHR ''-'' # digits (nat (- b))" by (simp add: show_int_def)
      with h [of "nat a"] show ?thesis by (metis list.sel(1))
    next
      case False
      with a e have "digits (nat a) = digits (nat b)" by (simp add: show_int_def)
      then have "nat a = nat b" by (rule digits_inj)
      with a False show ?thesis by simp
    qed
  qed
qed

lemma show_int_no_underscore: "CHR ''_'' \<notin> set (show_int a)"
  using digits_all_digit [of "nat a"] digits_all_digit [of "nat (- a)"]
  by (auto simp: show_int_def list_all_iff dest: is_digit_not_underscore)

lemma split_at_separator:
  assumes "c \<notin> set a" and "c \<notin> set a'" and "a @ c # b = a' @ c # b'"
  shows "a = a' \<and> b = b'"
  using assms
proof (induction a arbitrary: a')
  case Nil
  then show ?case by (cases a') auto
next
  case (Cons x xs)
  then show ?case by (cases a') auto
qed

lemma new_session_id_inj:
  assumes "new_session_id now rnd = new_session_id now' rnd'"
  shows "now = now' \<and> take 9 (drop 2 rnd) = take 9 (drop 2 rnd')"
proof -
  from assms have "show_int now @ CHR ''_'' # take 9 (drop 2 rnd)
                   = show_int now' @ CHR ''_'' # take 9 (drop 2 rnd')"
    by (simp add: new_session_id_def)
  from split_at_separator [OF show_int_no_underscore show_int_no_underscore this]
  show ?thesis by (auto dest: show_int_inj)
qed

text \<open>
  C3, amended: in every state, \<^verbatim>\<open>reset()\<close> leaves a transcript of exactly one message, the
  configured greeting with the role assistant, and a session identifier made from the
  clock reading and the random draw of the reset. The new identifier differs from the
  one before whenever that one was made from another clock reading or from a draw with
  another nine-digit suffix.
\<close>

theorem reset_fresh_session:
  "messages (reset stamp now rnd w) =
     [\<lparr>role = Assistant, content = data_get (config w) ''greeting'', timestamp = stamp\<rparr>]
   \<and> sessionId (reset stamp now rnd w) = new_session_id now rnd
   \<and> (sessionId w = new_session_id now0 rnd0
        \<and> (now0 \<noteq> now \<or> take 9 (drop 2 rnd0) \<noteq> take 9 (drop 2 rnd))
      \<longrightarrow> sessionId (reset stamp now rnd w) \<noteq> sessionId w)"
proof -
  have m: "messages (reset stamp now rnd w) =
     [\<lparr>role = Assistant, content = data_get (config w) ''greeting'', timestamp = stamp\<rparr>]"
    by (simp add: reset_def greeting_message_def)
  have s: "sessionId (reset stamp now rnd w) = new_session_id now rnd"
    by (simp add: reset_def)
  have d: "sessionId (reset stamp now rnd w) \<noteq> sessionId w"
    if old: "sessionId w = new_session_id now0 rnd0"
      and other: "now0 \<noteq> now \<or> take 9 (drop 2 rnd0) \<noteq> take 9 (drop 2 rnd)"
  proof
    assume "sessionId (reset stamp now rnd w) = sessionId w"
    with s old have "new_session_id now rnd = new_session_id now0 rnd0"
      by simp
    from new_session_id_inj [OF this] other show False
      by auto
  qed
  from m s d show ?thesis
    by blast
qed

text \<open>
  C3, as stated, fails: a reset within the millisecond in which the identifier was made,
  with a draw that has the same first nine digits, leaves the session identifier as it
  was.
\<close>

theorem reset_same_session_counterexample:
  "sessionId example_widget = ''widget_1700000000000_k3x9q2m1z''
   \<and> sessionId (reset 1700000000000 1700000000000 ''0.k3x9q2m1zzz'' example_widget) = sessionId example_widget"
  by (simp add: reset_def example_widget_def open_widget_def initial_widget_def new_session_id_def
      show_int_def digits.simps)

theorem reset_fresh_session_witness:
  "sessionId example_widget = new_session_id 1700000000000 ''0.k3x9q2m1zab''
   \<and> (1700000000000::int) \<noteq> 1700000000001
   \<and> messages (reset 1700000000001 1700000000001 ''0.k3x9q2m1zab'' example_widget) =
       [\<lparr>role = Assistant, content = JStr ''Hello! I'm your Medical AI Assistant. How can I help you today?'', timestamp = 1700000000001\<rparr>]
   \<and> sessionId (reset 1700000000001 1700000000001 ''0.k3x9q2m1zab'' example_widget) = ''widget_1700000000001_k3x9q2m1z''
   \<and> sessionId (reset 1700000000001 1700000000001 ''0.k3x9q2m1zab'' example_widget) \<noteq> sessionId example_widget"
proof -
  have s: "sessionId example_widget = new_session_id 1700000000000 ''0.k3x9q2m1zab''"
    by (simp add: example_widget_def open_widget_def initial_widget_def)
  have g: "data_get (config example_widget) ''greeting''
             = JStr ''Hello! I'm your Medical AI Assistant. How can I help you today?''"
    by (simp add: example_widget_def open_widget_def initial_widget_def initial_config_def
        defaultConfig_def data_get_def)
  have n: "new_session_id 1700000000001 ''0.k3x9q2m1zab'' = ''widget_1700000000001_k3x9q2m1z''"
    by (simp add: new_session_id_def show_int_def digits.simps)
  have n': "new_session_id 1700000000000 ''0.k3x9q2m1zab'' = ''widget_1700000000000_k3x9q2m1z''"
    by (simp add: new_session_id_def show_int_def digits.simps)
  from reset_fresh_session [of 1700000000001 1700000000001 "''0.k3x9q2m1zab''" example_widget 1700000000000
         "''0.k3x9q2m1zab''"] s
  show ?thesis
    by (simp add: g n n')
qed

section \<open>Placement\<close>

text \<open>
  The fallback works for every position whose text is none of the four names and no
  member of \<^verbatim>\<open>Object.prototype\<close>.
\<close>

lemma placement_fallback:
  assumes "to_string (data_get cfg ''position'') = Inr key"
      and "positions key = None"
      and "\<not> List.member Object_prototype key"
  shows "placement cfg = Inr (Data (JStr ''bottom: 20px; right: 20px;''))"
  using assms by (simp add: placement_def object_get_def positions_def)

text \<open>
  C10: a position that is none of the four names should fall back to the bottom-right
  placement. The lookup \<^verbatim>\<open>positions[config.position]\<close> also finds the members that
  \<open>positions\<close> inherits, and these are truthy: for the position \<^verbatim>\<open>toString\<close> the value
  interpolated is the inherited function, not the bottom-right placement.
\<close>

theorem placement_of_inherited_name:
  "data_get (initial_config hostname protocol (Some [''position'' \<mapsto> JStr ''toString''])) ''position''
     = JStr ''toString''
   \<and> placement (initial_config hostname protocol (Some [''position'' \<mapsto> JStr ''toString'']))
     = Inr (Builtin ''toString'')
   \<and> member_text (Builtin ''toString'') = Inr ''function toString() { [native code] }''"
  by (simp add: placement_def initial_config_def spread_def object_get_def data_get_def
      member_text_def positions_def Object_prototype_def)

section \<open>Properties of sendMessage\<close>

text \<open>
  C6, as stated, fails: a successful response whose body has the field \<^verbatim>\<open>response\<close> with the
  empty string as its value has the field present, and the apology is substituted
  all the same.
\<close>

theorem empty_response_counterexample:
  "map_of [(''response'', JStr [])] ''response'' = Some (JStr [])
   \<and> response_ok 200
   \<and> messages (sendMessage_settle (Responded 200 ''OK'' (Json (JObj [(''response'', JStr [])]))) 1700000061000
        loading_widget)
     = messages loading_widget @ [\<lparr>role = Assistant, content = JStr apology, timestamp = 1700000061000\<rparr>]"
  by (simp add: sendMessage_settle_def reply_content_def exchange_def response_ok_def
      response_field_def data_get_def js_or_def)

text \<open>
  C6, amended: on a successful response whose body is a JSON object, the assistant
  message appended has the value of the field \<^verbatim>\<open>response\<close> as its content when that value is
  truthy, and the apology when the field is absent or its value is falsy (the empty
  string, \<^verbatim>\<open>null\<close>, \<^verbatim>\<open>false\<close>, \<^verbatim>\<open>0\<close>); \<open>isLoading\<close> is cleared and nothing else changes.
\<close>

theorem successful_reply_content:
  assumes "response_ok status"
  shows "sendMessage_settle (Responded status statusText (Json (JObj kvs))) stamp w
         = w\<lparr>messages := messages w @
               [\<lparr>role = Assistant,
                 content = (case map_of kvs ''response'' of
                              None \<Rightarrow> JStr apology
                            | Some r \<Rightarrow> if truthy r then r else JStr apology),
                 timestamp = stamp\<rparr>],
             isLoading := False\<rparr>"
  using assms
  by (simp add: sendMessage_settle_def reply_content_def exchange_def response_field_def
      data_get_def js_or_def split: option.splits)

theorem successful_reply_content_witness:
  "response_ok 200
   \<and> sendMessage_settle (Responded 200 ''OK'' (Json (JObj [(''response'', JStr ''Drink water.''), (''sources'', JArr [])]))) 1700000061000
        loading_widget
     = loading_widget\<lparr>messages := messages loading_widget @
               [\<lparr>role = Assistant, content = JStr ''Drink water.'', timestamp = 1700000061000\<rparr>],
             isLoading := False\<rparr>"
proof -
  have ok: "response_ok 200"
    by (simp add: response_ok_def)
  from ok successful_reply_content [OF ok, of "''OK''" "[(''response'', JStr ''Drink water.''), (''sources'', JArr [])]" 1700000061000 loading_widget]
  show ?thesis
    by simp
qed

text \<open>
  Once the request is made, every path through the \<^verbatim>\<open>try\<close> block and the \<^verbatim>\<open>catch\<close> clause
  clears \<open>isLoading\<close>, in whatever state the settlement finds the widget, and a rejected
  \<^verbatim>\<open>fetch\<close> or a status outside 200 to 299 appends the message that quotes the error text
  and recommends consulting a healthcare professional.
\<close>

lemma settle_clears_loading: "\<not> isLoading (sendMessage_settle out stamp w)"
  by (simp add: sendMessage_settle_def)

lemma settle_rejected:
  "messages (sendMessage_settle (Rejected m) stamp w) =
     messages w @
       [\<lparr>role = Assistant,
         content = JStr (''I apologize, but I'm having trouble connecting right now. Error: ''
           @ m @ ''. Please try again later or consult a healthcare professional for urgent medical concerns.''),
         timestamp = stamp\<rparr>]"
  by (simp add: sendMessage_settle_def reply_content_def exchange_def error_content_def)

lemma settle_bad_status:
  assumes "\<not> response_ok status"
  shows "messages (sendMessage_settle (Responded status statusText b) stamp w) =
     messages w @
       [\<lparr>role = Assistant,
         content = JStr (''I apologize, but I'm having trouble connecting right now. Error: ''
           @ ''HTTP '' @ show_int (int status) @ '': '' @ statusText
           @ ''. Please try again later or consult a healthcare professional for urgent medical concerns.''),
         timestamp = stamp\<rparr>]"
  using assms
  by (simp add: sendMessage_settle_def reply_content_def exchange_def error_content_def)

text \<open>
  The call reaches the request when the text is not empty after trimming, \<open>isLoading\<close> is
  clear, and neither the \<^verbatim>\<open>render()\<close> before the \<^verbatim>\<open>try\<close> block nor the template of the address
  raises.
\<close>

lemma sendMessage_reaches_request:
  assumes "trim v \<noteq> []" and "\<not> isLoading w"
    and "\<not> render_raises (w\<lparr>messages := messages w @
                 [\<lparr>role = User, content = JStr (trim v), timestamp = stamp\<rparr>],
               isLoading := True\<rparr>)"
    and "to_string (data_get (config w) ''apiUrl'') = Inr base"
  shows "sendMessage (Some v) stamp out stamp' w =
           sendMessage_settle out stamp'
             (w\<lparr>messages := messages w @
                  [\<lparr>role = User, content = JStr (trim v), timestamp = stamp\<rparr>],
                isLoading := True\<rparr>)"
  using assms by (simp add: sendMessage_def sendMessage_begin_def Let_def)

text \<open>
  C1: a call of \<^verbatim>\<open>sendMessage\<close> with a text that is not empty after trimming, while
  \<open>isLoading\<close> is clear, should leave \<open>isLoading\<close> clear when it has completed. The widget
  has answered a first message with the number 5, which a reply with status 200 and the
  body \<^verbatim>\<open>{"response": 5}\<close> gave as its content. In the second call the user message is
  appended and \<open>isLoading\<close> is set; the \<^verbatim>\<open>render()\<close> that follows stands before the \<^verbatim>\<open>try\<close> block
  and raises, since \<^verbatim>\<open>parseMarkdown\<close> finds no method \<^verbatim>\<open>replace\<close> on the number. The call ends
  there: no request is made, and \<open>isLoading\<close> stays set.
\<close>

theorem sendMessage_stuck_after_numeric_reply:
  "\<not> isLoading
       (sendMessage (Some ''first'') 1700000060000
          (Responded 200 ''OK'' (Json (JObj [(''response'', JNum ''5'')]))) 1700000061000 example_widget)
   \<and> trim ''second'' = ''second''
   \<and> sendMessage_begin (Some ''second'') 1700000070000
        (sendMessage (Some ''first'') 1700000060000
           (Responded 200 ''OK'' (Json (JObj [(''response'', JNum ''5'')]))) 1700000061000 example_widget)
      = Aborted
          (example_widget
             \<lparr>messages :=
                [\<lparr>role = Assistant,
                  content = JStr ''Hello! I'm your Medical AI Assistant. How can I help you today?'',
                  timestamp = 1700000000000\<rparr>,
                 \<lparr>role = User, content = JStr ''first'', timestamp = 1700000060000\<rparr>,
                 \<lparr>role = Assistant, content = JNum ''5'', timestamp = 1700000061000\<rparr>,
                 \<lparr>role = User, content = JStr ''second'', timestamp = 1700000070000\<rparr>],
              isLoading := True\<rparr>)
   \<and> isLoading
       (sendMessage (Some ''second'') 1700000070000 (Rejected ''Failed to fetch'') 1700000071000
          (sendMessage (Some ''first'') 1700000060000
             (Responded 200 ''OK'' (Json (JObj [(''response'', JNum ''5'')]))) 1700000061000
             example_widget))"
proof -
  let ?reply = "Responded 200 ''OK'' (Json (JObj [(''response'', JNum ''5'')]))"
  let ?greeting = "\<lparr>role = Assistant,
      content = JStr ''Hello! I'm your Medical AI Assistant. How can I help you today?'',
      timestamp = 1700000000000\<rparr>"
  have t: "trim ''first'' = ''first''" "trim ''second'' = ''second''"
    by (simp_all add: trim_def js_whitespace_def)
  have c: "data_get (config example_widget) ''title'' = JStr ''Medical AI Assistant''"
      "data_get (config example_widget) ''placeholder'' = JStr ''Ask me about your health...''"
      "data_get (config example_widget) ''apiUrl'' = JBool False"
    by (simp_all add: example_widget_def open_widget_def initial_widget_def initial_config_def
        defaultConfig_def data_get_def)
  have m: "messages example_widget = [?greeting]"
    by (simp add: example_widget_def open_widget_def initial_widget_def initial_config_def
        defaultConfig_def greeting_message_def data_get_def)
  have f: "isOpen example_widget" "\<not> isMinimized example_widget" "\<not> isLoading example_widget"
    by (simp_all add: example_widget_def open_widget_def initial_widget_def)
  have r: "reply_content ?reply = JNum ''5''"
    by (simp add: reply_content_def exchange_def response_ok_def response_field_def data_get_def
        js_or_def)
  have first: "sendMessage (Some ''first'') 1700000060000 ?reply 1700000061000 example_widget
      = example_widget
          \<lparr>messages :=
             [?greeting,
              \<lparr>role = User, content = JStr ''first'', timestamp = 1700000060000\<rparr>,
              \<lparr>role = Assistant, content = JNum ''5'', timestamp = 1700000061000\<rparr>],
           isLoading := False\<rparr>"
    by (simp add: sendMessage_def sendMessage_begin_def Let_def t c m f r render_raises_def
        renderChat_raises_def message_raises_def parseMarkdown_def sendMessage_settle_def)
  have second: "sendMessage_begin (Some ''second'') 1700000070000
        (example_widget
          \<lparr>messages :=
             [?greeting,
              \<lparr>role = User, content = JStr ''first'', timestamp = 1700000060000\<rparr>,
              \<lparr>role = Assistant, content = JNum ''5'', timestamp = 1700000061000\<rparr>],
           isLoading := False\<rparr>)
      = Aborted
          (example_widget
             \<lparr>messages :=
                [?greeting,
                 \<lparr>role = User, content = JStr ''first'', timestamp = 1700000060000\<rparr>,
                 \<lparr>role = Assistant, content = JNum ''5'', timestamp = 1700000061000\<rparr>,
                 \<lparr>role = User, content = JStr ''second'', timestamp = 1700000070000\<rparr>],
              isLoading := True\<rparr>)"
    by (simp add: sendMessage_begin_def Let_def t f render_raises_def renderChat_raises_def
        message_raises_def parseMarkdown_def)
  have stuck: "sendMessage (Some ''second'') 1700000070000 (Rejected ''Failed to fetch'') 1700000071000
        (example_widget
          \<lparr>messages :=
             [?greeting,
              \<lparr>role = User, content = JStr ''first'', timestamp = 1700000060000\<rparr>,
              \<lparr>role = Assistant, content = JNum ''5'', timestamp = 1700000061000\<rparr>],
           isLoading := False\<rparr>)
      = example_widget
          \<lparr>messages :=
             [?greeting,
              \<lparr>role = User, content = JStr ''first'', timestamp = 1700000060000\<rparr>,
              \<lparr>role = Assistant, content = JNum ''5'', timestamp = 1700000061000\<rparr>,
              \<lparr>role = User, content = JStr ''second'', timestamp = 1700000070000\<rparr>],
           isLoading := True\<rparr>"
    by (simp add: sendMessage_def second)
  show ?thesis
    by (simp add: first second stuck t)
qed

section \<open>Properties of the markdown renderer\<close>

lemmas markdown_defs =
  parseMarkdown_def finish_def replacements_def headers_def bold_def italic_def code_blocks_def
  list_items_def prefixed_def numbered_def line_terminator_def is_digit_def

lemma per_line_one_line: "one_line l \<Longrightarrow> per_line f line l = f (line @ l)"
  by (induction l arbitrary: line) (simp_all add: one_line_def)

lemma per_line_split:
  "line_terminator t \<Longrightarrow> per_line f line (x @ t # y) = per_line f line x @ t # per_line f [] y"
  by (induction x arbitrary: line) simp_all

lemma list_items_split:
  "line_terminator t \<Longrightarrow> list_items (x @ t # y) = list_items x @ t # list_items y"
  by (simp add: list_items_def Let_def per_line_split)

lemma one_line_append: "one_line (a @ b) \<longleftrightarrow> one_line a \<and> one_line b"
  by (simp add: one_line_def)

lemma one_line_li: "one_line r \<Longrightarrow> one_line (''<li>'' @ r @ ''</li>'')"
  by (simp add: one_line_def line_terminator_def)

lemma numbered_li: "numbered (''<li>'' @ r) = ''<li>'' @ r"
  by (simp add: numbered_def is_digit_def)

lemma one_line_prefixed:
  "one_line a \<Longrightarrow> one_line b \<Longrightarrow> one_line l \<Longrightarrow> one_line (prefixed p a b l)"
proof -
  assume a: "one_line a" and b: "one_line b" and l: "one_line l"
  show ?thesis
  proof (cases "strip_prefix p l")
    case None
    with l show ?thesis by (simp add: prefixed_def)
  next
    case (Some rest)
    have "strip_prefix p l = Some rest \<Longrightarrow> set rest \<subseteq> set l"
      by (induction p l rule: strip_prefix.induct) (auto split: if_splits)
    with Some l have "one_line rest"
      by (auto simp: one_line_def list_all_iff)
    with Some a b show ?thesis
      by (simp add: prefixed_def one_line_def)
  qed
qed

lemma one_line_li_tags: "one_line ''<li>''" "one_line ''</li>''"
  by (simp_all add: one_line_def line_terminator_def)

lemma list_items_one_line:
  assumes "one_line l"
  shows "list_items l =
           numbered (prefixed ''+ '' ''<li>'' ''</li>''
             (prefixed ''- '' ''<li>'' ''</li>'' (prefixed ''* '' ''<li>'' ''</li>'' l)))"
proof -
  let ?s = "prefixed ''* '' ''<li>'' ''</li>'' l"
  let ?m = "prefixed ''- '' ''<li>'' ''</li>'' ?s"
  let ?p = "prefixed ''+ '' ''<li>'' ''</li>'' ?m"
  have 1: "per_line (prefixed ''* '' ''<li>'' ''</li>'') [] l = ?s"
    using per_line_one_line [OF assms, of _ "[]"] by simp
  have "one_line ?s"
    by (intro one_line_prefixed one_line_li_tags assms)
  then have 2: "per_line (prefixed ''- '' ''<li>'' ''</li>'') [] ?s = ?m"
    and s: "one_line ?m"
    using per_line_one_line [of ?s _ "[]"] by (simp_all add: one_line_prefixed one_line_li_tags)
  from s have 3: "per_line (prefixed ''+ '' ''<li>'' ''</li>'') [] ?m = ?p"
    and t: "one_line ?p"
    using per_line_one_line [of ?m _ "[]"] by (simp_all add: one_line_prefixed one_line_li_tags)
  from t have 4: "per_line numbered [] ?p = numbered ?p"
    using per_line_one_line [of ?p _ "[]"] by simp
  show ?thesis
    unfolding list_items_def Let_def 1 2 3 4 ..
qed

lemma list_items_symbol:
  assumes "one_line r" and "m = ''* '' \<or> m = ''- '' \<or> m = ''+ ''"
  shows "list_items (m @ r) = ''<li>'' @ r @ ''</li>''"
proof -
  from assms have l: "one_line (m @ r)"
    by (auto simp: one_line_def line_terminator_def)
  from assms(2) show ?thesis
    unfolding list_items_one_line [OF l]
    by (auto simp: prefixed_def numbered_def is_digit_def)
qed

lemma list_items_number:
  assumes "one_line r" and "takeWhile is_digit m \<noteq> []" and "dropWhile is_digit m = ''. ''"
  shows "list_items (m @ r) = ''<li>'' @ r @ ''</li>''"
proof -
  define ds where "ds = takeWhile is_digit m"
  have md: "m @ r = ds @ CHR ''.'' # CHR '' '' # r"
    using takeWhile_dropWhile_id [of is_digit m] assms(3) by (simp add: ds_def)
  have dd: "\<forall>c\<in>set ds. is_digit c"
    unfolding ds_def by (metis set_takeWhileD)
  obtain d ds' where ds: "ds = d # ds'"
    using assms(2) by (cases ds) (auto simp: ds_def)
  with dd have d: "is_digit d" by simp
  have nl: "\<not> line_terminator c" if "is_digit c" for c
    using that by (auto simp: is_digit_def line_terminator_def)
  have "one_line ds"
    unfolding one_line_def list_all_iff using dd nl by blast
  then have l: "one_line (m @ r)"
    using assms(1) by (simp add: md one_line_def line_terminator_def)
  from d have p: "prefixed ''* '' ''<li>'' ''</li>'' (m @ r) = m @ r"
      "prefixed ''- '' ''<li>'' ''</li>'' (m @ r) = m @ r"
      "prefixed ''+ '' ''<li>'' ''</li>'' (m @ r) = m @ r"
    by (auto simp: md ds is_digit_def prefixed_def)
  have nd: "\<not> is_digit CHR ''.''"
    by (simp add: is_digit_def)
  have "takeWhile is_digit (m @ r) = takeWhile is_digit ds"
    unfolding md using nd by (rule takeWhile_tail)
  also have "\<dots> = ds"
    using dd by (simp add: takeWhile_eq_all_conv)
  finally have tw: "takeWhile is_digit (m @ r) = ds" .
  have "dropWhile is_digit (m @ r) = dropWhile is_digit ds @ CHR ''.'' # CHR '' '' # r"
    unfolding md using nd by (rule dropWhile_append3)
  also have "\<dots> = ''. '' @ r"
    using dd by (simp add: dropWhile_eq_Nil_conv)
  finally have dw: "dropWhile is_digit (m @ r) = ''. '' @ r" .
  have n: "numbered (m @ r) = ''<li>'' @ r @ ''</li>''"
    unfolding numbered_def tw dw by (simp add: ds)
  show ?thesis
    unfolding list_items_one_line [OF l] p n ..
qed

lemma list_items_marker:
  "one_line r \<Longrightarrow> list_marker m \<Longrightarrow> list_items (m @ r) = ''<li>'' @ r @ ''</li>''"
  unfolding list_marker_def using list_items_symbol list_items_number by blast

lemma includes_str_middle: "part \<noteq> [] \<Longrightarrow> includes_str (a @ part @ b) part"
proof (induction a)
  case Nil
  have "strip_prefix p (p @ b) = Some b" for p
    by (induction p) simp_all
  with Nil show ?case
    by (cases part) simp_all
next
  case (Cons c a)
  then show ?case
    by (simp split: option.splits)
qed

lemma last_close_absent: "\<not> includes_str s ''</li>'' \<Longrightarrow> last_close s = None"
  by (induction s) (auto split: option.splits if_splits)

lemma last_close_found:
  assumes "\<not> includes_str post ''</li>''"
  shows "last_close (body @ ''</li>'' @ post) = Some (body, post)"
proof (induction body)
  case Nil
  from assms have "\<not> includes_str (''/li>'' @ post) ''</li>''"
    by simp
  then have "last_close (''/li>'' @ post) = None"
    by (rule last_close_absent)
  then show ?case
    by simp
next
  case (Cons c body)
  then show ?case
    by simp
qed

lemma open_tag_overlap:
  assumes "strip_prefix ''<li>'' (q @ ''<li>'' @ rest) = Some x" and "q \<noteq> []"
  shows "\<exists>y. strip_prefix ''<li>'' q = Some y"
proof -
  consider "q = []" | a where "q = [a]" | a b where "q = [a, b]" | a b c where "q = [a, b, c]"
    | a b c d q' where "q = a # b # c # d # q'"
    by (metis list.exhaust)
  then show ?thesis
    using assms by cases (auto split: if_splits)
qed

lemma wrap_list_skip:
  assumes "\<not> includes_str pre ''<li>''"
  shows "wrap_list (pre @ ''<li>'' @ rest) = pre @ wrap_list (''<li>'' @ rest)"
  using assms
proof (induction pre)
  case Nil
  show ?case by simp
next
  case (Cons c pre)
  from Cons.prems have n: "strip_prefix ''<li>'' (c # pre) = None"
    and i: "\<not> includes_str pre ''<li>''"
    by (auto split: option.splits if_splits)
  have "strip_prefix ''<li>'' ((c # pre) @ ''<li>'' @ rest) = None"
  proof (cases "strip_prefix ''<li>'' ((c # pre) @ ''<li>'' @ rest)")
    case None
    then show ?thesis .
  next
    case (Some x)
    from open_tag_overlap [OF Some] n show ?thesis by simp
  qed
  then have "wrap_list ((c # pre) @ ''<li>'' @ rest) = c # wrap_list (pre @ ''<li>'' @ rest)"
    by (simp del: strip_prefix.simps)
  with Cons.IH [OF i] show ?case
    by simp
qed

lemma wrap_list_run:
  assumes "\<not> includes_str pre ''<li>''" and "\<not> includes_str post ''</li>''"
  shows "wrap_list (pre @ ''<li>'' @ body @ ''</li>'' @ post)
         = pre @ ''<ul><li>'' @ body @ ''</li></ul>'' @ post"
proof -
  have "wrap_list (''<li>'' @ body @ ''</li>'' @ post) = ''<ul><li>'' @ body @ ''</li></ul>'' @ post"
    using last_close_found [OF assms(2), of body] by simp
  with wrap_list_skip [OF assms(1), of "body @ ''</li>'' @ post"] show ?thesis
    by simp
qed

lemma li_run_shape: "items \<noteq> [] \<Longrightarrow> \<exists>body. li_run items = ''<li>'' @ body @ ''</li>''"
proof (induction items rule: induct_list012)
  case 1
  then show ?case by simp
next
  case (2 x)
  show ?case by (simp add: li_run_def)
next
  case (3 x y zs)
  then obtain body where "li_run (y # zs) = ''<li>'' @ body @ ''</li>''"
    by auto
  then have "li_run (x # y # zs) = ''<li>'' @ (x @ ''</li><br><li>'' @ body) @ ''</li>''"
    by (simp add: li_run_def)
  then show ?case by blast
qed

lemma finish_run:
  assumes "items \<noteq> []" and "\<not> includes_str pre ''<li>''" and "\<not> includes_str post ''</li>''"
  shows "finish (pre @ li_run items @ post) = pre @ ''<ul>'' @ li_run items @ ''</ul>'' @ post"
proof -
  from li_run_shape [OF assms(1)] obtain body where b: "li_run items = ''<li>'' @ body @ ''</li>''"
    by blast
  have w: "wrap_list (pre @ li_run items @ post) = pre @ ''<ul>'' @ li_run items @ ''</ul>'' @ post"
    using wrap_list_run [OF assms(2,3), of body] by (simp add: b)
  have "includes_str (pre @ ''<ul>'' @ (li_run items @ ''</ul>'' @ post)) ''<ul>''"
    by (rule includes_str_middle) simp
  then have "includes_str (wrap_list (pre @ li_run items @ post)) ''<ul>''"
    by (simp add: w)
  then show ?thesis
    by (simp add: finish_def Let_def w)
qed

text \<open>
  C8, amended. For every text the list rules work line by line, and a line that consists
  of a marker (a star, a dash, a plus or a number with a dot), a space and a rest becomes
  a list-item element around the rest. When the list-item elements of the markup form
  one run, with no \<^verbatim>\<open><li>\<close> before it and no \<^verbatim>\<open></li>\<close> behind it, the renderer wraps that run
  once in a list container and leaves what stands before and behind it outside.
\<close>

theorem list_rendering:
  "(line_terminator t \<longrightarrow> list_items (x @ t # y) = list_items x @ t # list_items y)
   \<and> (one_line r \<and> list_marker m \<longrightarrow> list_items (m @ r) = ''<li>'' @ r @ ''</li>'')
   \<and> (text \<noteq> [] \<and> replacements text = pre @ li_run items @ post \<and> items \<noteq> []
        \<and> \<not> includes_str pre ''<li>'' \<and> \<not> includes_str post ''</li>''
      \<longrightarrow> parseMarkdown (JStr text) = Inr (pre @ ''<ul>'' @ li_run items @ ''</ul>'' @ post))"
proof -
  have lines: "list_items (x @ t # y) = list_items x @ t # list_items y" if "line_terminator t"
    using that by (rule list_items_split)
  have item: "list_items (m @ r) = ''<li>'' @ r @ ''</li>''" if "one_line r" and "list_marker m"
    using that by (rule list_items_marker)
  have wrapped: "parseMarkdown (JStr text) = Inr (pre @ ''<ul>'' @ li_run items @ ''</ul>'' @ post)"
    if "text \<noteq> []" and r: "replacements text = pre @ li_run items @ post" and "items \<noteq> []"
      and "\<not> includes_str pre ''<li>''" and "\<not> includes_str post ''</li>''"
  proof -
    from \<open>text \<noteq> []\<close> have "parseMarkdown (JStr text) = Inr (finish (replacements text))"
      by (simp add: parseMarkdown_def)
    also have "finish (replacements text) = pre @ ''<ul>'' @ li_run items @ ''</ul>'' @ post"
      unfolding r using that(3,4,5) by (rule finish_run)
    finally show ?thesis .
  qed
  from lines item wrapped show ?thesis
    by blast
qed

theorem list_rendering_witness:
  "line_terminator CHR 0x0A
   \<and> list_items (''Take:'' @ CHR 0x0A # ''2. rest'') = list_items ''Take:'' @ CHR 0x0A # list_items ''2. rest''
   \<and> one_line ''rest'' \<and> list_marker ''2. ''
   \<and> list_items (''2. '' @ ''rest'') = ''<li>rest</li>''
   \<and> ''Take:\<newline>1. water\<newline>2. rest\<newline>Bye'' \<noteq> []
   \<and> replacements ''Take:\<newline>1. water\<newline>2. rest\<newline>Bye''
       = ''Take:<br>'' @ li_run [''water'', ''rest''] @ ''<br>Bye''
   \<and> [''water'', ''rest''] \<noteq> []
   \<and> \<not> includes_str ''Take:<br>'' ''<li>'' \<and> \<not> includes_str ''<br>Bye'' ''</li>''
   \<and> parseMarkdown (JStr ''Take:\<newline>1. water\<newline>2. rest\<newline>Bye'')
       = Inr ''Take:<br><ul><li>water</li><br><li>rest</li></ul><br>Bye''"
proof -
  have t: "line_terminator CHR 0x0A"
    by (simp add: line_terminator_def)
  have o: "one_line ''rest''"
    by (simp add: one_line_def line_terminator_def)
  have m: "list_marker ''2. ''"
    by (simp add: list_marker_def is_digit_def)
  have r: "replacements ''Take:\<newline>1. water\<newline>2. rest\<newline>Bye''
       = ''Take:<br>'' @ li_run [''water'', ''rest''] @ ''<br>Bye''"
    by (simp add: markdown_defs li_run_def)
  have i: "\<not> includes_str ''Take:<br>'' ''<li>''" "\<not> includes_str ''<br>Bye'' ''</li>''"
    by simp_all
  from list_rendering [of "CHR 0x0A" "''Take:''" "''2. rest''" "''rest''" "''2. ''"
        "''Take:\<newline>1. water\<newline>2. rest\<newline>Bye''" "''Take:<br>''" "[''water'', ''rest'']" "''<br>Bye''"]
    t o m r i
  show ?thesis
    by (simp add: li_run_def)
qed

text \<open>
  C7: for the text \<^verbatim>\<open>**bold** and *italic* and `code`\<close> the renderer gives one paragraph in
  which \<^verbatim>\<open>bold\<close> stands in the one strong-emphasis element, \<^verbatim>\<open>italic\<close> in the one emphasis
  element and \<^verbatim>\<open>code\<close> in the one inline-code element.
\<close>

theorem markdown_round_trip:
  "parseMarkdown (JStr ''**bold** and *italic* and `code`'')
     = Inr ''<p><strong>bold</strong> and <em>italic</em> and <code>code</code></p>''
   \<and> occurrences ''<p><strong>bold</strong> and <em>italic</em> and <code>code</code></p>'' ''<strong>'' = 1
   \<and> occurrences ''<p><strong>bold</strong> and <em>italic</em> and <code>code</code></p>'' ''<strong>bold</strong>'' = 1
   \<and> occurrences ''<p><strong>bold</strong> and <em>italic</em> and <code>code</code></p>'' ''<em>'' = 1
   \<and> occurrences ''<p><strong>bold</strong> and <em>italic</em> and <code>code</code></p>'' ''<em>italic</em>'' = 1
   \<and> occurrences ''<p><strong>bold</strong> and <em>italic</em> and <code>code</code></p>'' ''<code>'' = 1
   \<and> occurrences ''<p><strong>bold</strong> and <em>italic</em> and <code>code</code></p>'' ''<code>code</code>'' = 1"
proof -
  have "parseMarkdown (JStr ''**bold** and *italic* and `code`'')
     = Inr ''<p><strong>bold</strong> and <em>italic</em> and <code>code</code></p>''"
    by (simp add: markdown_defs)
  moreover have "occurrences ''<p><strong>bold</strong> and <em>italic</em> and <code>code</code></p>'' ''<strong>'' = 1"
    by simp
  moreover have "occurrences ''<p><strong>bold</strong> and <em>italic</em> and <code>code</code></p>'' ''<strong>bold</strong>'' = 1"
    by simp
  moreover have "occurrences ''<p><strong>bold</strong> and <em>italic</em> and <code>code</code></p>'' ''<em>'' = 1"
    by simp
  moreover have "occurrences ''<p><strong>bold</strong> and <em>italic</em> and <code>code</code></p>'' ''<em>italic</em>'' = 1"
    by simp
  moreover have "occurrences ''<p><strong>bold</strong> and <em>italic</em> and <code>code</code></p>'' ''<code>'' = 1"
    by simp
  moreover have "occurrences ''<p><strong>bold</strong> and <em>italic</em> and <code>code</code></p>'' ''<code>code</code>'' = 1"
    by simp
  ultimately show ?thesis
    by (simp only: simp_thms)
qed

text \<open>
  C8, as stated, fails. The first line begins with a dash and is no list item, since no
  space follows the dash. The two list lines are parted by a line of plain text, and the
  one replacement that wraps lists runs from the first \<^verbatim>\<open><li>\<close> to the last \<^verbatim>\<open></li>\<close>: both
  runs and the plain text between them stand in a single container.
\<close>

theorem two_lists_counterexample:
  "parseMarkdown (JStr ''-x\<newline>- a\<newline>text\<newline>- b'')
     = Inr ''-x<br><ul><li>a</li><br>text<br><li>b</li></ul>''
   \<and> occurrences ''-x<br><ul><li>a</li><br>text<br><li>b</li></ul>'' ''<li>'' = 2
   \<and> occurrences ''-x<br><ul><li>a</li><br>text<br><li>b</li></ul>'' ''<ul>'' = 1"
proof -
  have "parseMarkdown (JStr ''-x\<newline>- a\<newline>text\<newline>- b'')
     = Inr ''-x<br><ul><li>a</li><br>text<br><li>b</li></ul>''"
    by (simp add: markdown_defs)
  moreover have "occurrences ''-x<br><ul><li>a</li><br>text<br><li>b</li></ul>'' ''<li>'' = 2"
    by simp
  moreover have "occurrences ''-x<br><ul><li>a</li><br>text<br><li>b</li></ul>'' ''<ul>'' = 1"
    by simp
  ultimately show ?thesis
    by (simp only: simp_thms)
qed


end
